theory Spec2Isabelle
  imports Complex_Main
begin

section \<open>The assessment matrix of the faculty portal (app.py)\<close>

text \<open>
  The portal keeps, for every (instructor, course) pair, one row per assessment type in
  the table \<^verbatim>\<open>assessments\<close>.  \<^verbatim>\<open>load_assessments_for_course\<close> reads the stored rows
  and lays them over the fixed list \<^verbatim>\<open>ASSESSMENT_TYPES\<close>;
  \<^verbatim>\<open>save_assessments_for_course\<close> checks that the percentages add up to 100 and then
  replaces the stored rows; \<^verbatim>\<open>delete_course_for_instructor\<close> removes the rows of a
  course and then the course.

  Conventions of the embedding.
  \<^item> A float cell of a DataFrame or of a table row is a \<open>rat option\<close>: \<open>None\<close> is a
    missing value (NaN, None, SQL NULL), \<open>Some q\<close> a finite number.  Arithmetic on the
    numbers is exact; the rounding of float addition and the infinities are outside the
    model.
  \<^item> A text cell is a \<open>string option\<close> in the same way; characters are code points
    below 256.
  \<^item> A row of a DataFrame and a row of the table \<^verbatim>\<open>assessments\<close> are the same record
    with the six columns the program reads and writes.  A column that a DataFrame does
    not have is \<open>None\<close> on each of its rows.  The frames handled here always have the
    four columns that \<^verbatim>\<open>load_assessments_for_course\<close> produces.
  \<^item> The record store is a value passed in and returned.  Its calls always answer: the
    failures of the network and of the database are outside the model.  Every call that
    changes the store is appended to \<open>writes\<close>, so that the order of the effects can be
    read off.
\<close>

subsection \<open>Data\<close>

type_synonym cell = "rat option"

record row =
  instructor_code :: "string option"
  course_code :: "string option"
  assessment_type :: "string option"
  percent_of_class_assessment :: cell
  ai_misuse_susceptibility :: cell
  modification_level :: cell

record course =
  crs_id :: string
  crs_instructor_code :: string
  crs_course_code :: string
  crs_course_title :: string
  crs_term :: string
  crs_level :: string
  crs_modality :: string
  crs_approx_students :: nat

datatype store_call =
    Delete_assessments string string
  | Insert_assessments "row list"
  | Delete_courses string string

record db =
  assessments :: "row list"
  courses :: "course list"
  writes :: "store_call list"

datatype error = ValueError string

text \<open>The fixed assessment types, in the order of the source.\<close>

definition ASSESSMENT_TYPES :: "string list" where
  "ASSESSMENT_TYPES =
    [''In-person exam/quiz, closed resources, no AI'',
     ''In-person exam/quiz, limited resources (notes/book), no AI'',
     ''In-person exam/quiz, open resources, AI allowed'',
     ''Online timed exam/quiz, closed resources, no AI'',
     ''Online timed exam/quiz, limited resources (notes/book), no AI'',
     ''Online timed exam/quiz, open resources, AI allowed'',
     ''Out-of-class untimed exam/quiz, closed resources, no AI'',
     ''Out-of-class untimed exam/quiz, limited resources (notes/book), no AI'',
     ''Out-of-class untimed exam/quiz, open resources, AI allowed'',
     ''In-person participation/presentations, no AI'',
     ''In-person participation/presentations, AI allowed'']"

subsection \<open>The record store\<close>

text \<open>
  \<^verbatim>\<open>.eq("instructor_code", instructor_code).eq("course_code", course_code)\<close>: the rows
  whose two columns hold these values.  A NULL column matches nothing.
\<close>

definition eq_pair :: "string \<Rightarrow> string \<Rightarrow> row \<Rightarrow> bool" where
  "eq_pair ic cc r \<longleftrightarrow> instructor_code r = Some ic \<and> course_code r = Some cc"


definition delete_assessments :: "string \<Rightarrow> string \<Rightarrow> db \<Rightarrow> db" where
  "delete_assessments ic cc d =
     d\<lparr>assessments := filter (\<lambda>r. \<not> eq_pair ic cc r) (assessments d),
       writes := writes d @ [Delete_assessments ic cc]\<rparr>"

definition insert_assessments :: "row list \<Rightarrow> db \<Rightarrow> db" where
  "insert_assessments rows d =
     d\<lparr>assessments := assessments d @ rows,
       writes := writes d @ [Insert_assessments rows]\<rparr>"


subsection \<open>Courses\<close>


subsection \<open>Loading\<close>

text \<open>
  The frame of a course without stored rows: 0.0 in the three numeric columns, then
  100.0 in the percentage of the row with index 0.
\<close>

definition default_row :: "nat \<times> string \<Rightarrow> row" where
  "default_row p =
     \<lparr>instructor_code = None, course_code = None,
      assessment_type = Some (snd p),
      percent_of_class_assessment = Some (if fst p = 0 then 100 else 0),
      ai_misuse_susceptibility = Some 0,
      modification_level = Some 0\<rparr>"

definition default_frame :: "row list" where
  "default_frame = map default_row (enumerate 0 ASSESSMENT_TYPES)"

text \<open>
  \<^verbatim>\<open>df_types.merge(df_db, on="assessment_type", how="left")\<close>, after \<^verbatim>\<open>df_db\<close> has
  been cut down to its four columns: the types in their order; under each type every
  stored row with that very label, in the stored order, with its three numbers; a type
  without a stored row gets one row whose three numbers are missing.
\<close>

definition blank_row :: "string \<Rightarrow> row" where
  "blank_row t =
     \<lparr>instructor_code = None, course_code = None,
      assessment_type = Some t,
      percent_of_class_assessment = None,
      ai_misuse_susceptibility = None,
      modification_level = None\<rparr>"

definition merged_row :: "string \<Rightarrow> row \<Rightarrow> row" where
  "merged_row t r =
     \<lparr>instructor_code = None, course_code = None,
      assessment_type = Some t,
      percent_of_class_assessment = percent_of_class_assessment r,
      ai_misuse_susceptibility = ai_misuse_susceptibility r,
      modification_level = modification_level r\<rparr>"

definition merge_type :: "row list \<Rightarrow> string \<Rightarrow> row list" where
  "merge_type df_db t =
     (case filter (\<lambda>r. assessment_type r = Some t) df_db of
        [] \<Rightarrow> [blank_row t]
      | m # ms \<Rightarrow> map (merged_row t) (m # ms))"

definition merge_left :: "string list \<Rightarrow> row list \<Rightarrow> row list" where
  "merge_left types df_db = concat (map (merge_type df_db) types)"

text \<open>
  The part of \<^verbatim>\<open>load_assessments_for_course\<close> after the query: \<open>data\<close> is what the
  store returned.
\<close>

definition reconcile :: "row list \<Rightarrow> row list" where
  "reconcile data = (if data = [] then default_frame else merge_left ASSESSMENT_TYPES data)"


subsection \<open>Saving\<close>

text \<open>\<^verbatim>\<open>str.strip()\<close>: the white space of Python among the code points below 256.\<close>

definition is_space :: "char \<Rightarrow> bool" where
  "is_space c \<longleftrightarrow>
     (let n = of_char c :: nat
      in (9 \<le> n \<and> n \<le> 13) \<or> (28 \<le> n \<and> n \<le> 32) \<or> n = 133 \<or> n = 160)"

definition strip :: "string \<Rightarrow> string" where
  "strip s = rev (dropWhile is_space (rev (dropWhile is_space s)))"

text \<open>\<^verbatim>\<open>fillna("")\<close> and \<^verbatim>\<open>fillna(0)\<close> on one cell.\<close>

definition fillna_str :: "string option \<Rightarrow> string" where
  "fillna_str c = (case c of None \<Rightarrow> [] | Some s \<Rightarrow> s)"

definition fillna0 :: "cell \<Rightarrow> rat" where
  "fillna0 c = (case c of None \<Rightarrow> 0 | Some q \<Rightarrow> q)"

text \<open>
  \<^verbatim>\<open>total = float(df["percent_of_class_assessment"].sum())\<close>, after the missing
  percentages have been filled with 0.
\<close>

definition total_percent :: "row list \<Rightarrow> rat" where
  "total_percent df = sum_list (map (\<lambda>r. fillna0 (percent_of_class_assessment r)) df)"

text \<open>
  \<^verbatim>\<open>f"{total:.1f}"\<close>: the number rounded to one decimal, a tie going to the even
  digit, then written in decimal digits with its sign.
\<close>

fun digits :: "nat \<Rightarrow> string" where
  "digits n =
     (if n < 10 then [char_of (48 + n)]
      else digits (n div 10) @ [char_of (48 + n mod 10)])"

declare digits.simps [simp del]

definition round_half_even :: "rat \<Rightarrow> int" where
  "round_half_even x =
     (let n = floor x; f = x - of_int n
      in if f < 1 / 2 then n
         else if 1 / 2 < f then n + 1
         else if even n then n else n + 1)"

definition format_1f :: "rat \<Rightarrow> string" where
  "format_1f q =
     (let n = nat (round_half_even (\<bar>q\<bar> * 10))
      in (if q < 0 then ''-'' else '''') @ digits (n div 10) @ ''.'' @ digits (n mod 10))"

definition percent_sum_message :: "rat \<Rightarrow> string" where
  "percent_sum_message t =
     ''The '' @ [CHR 0x27] @ ''Percent of class assessment'' @ [CHR 0x27] @
     '' values must sum to 100. Right now they sum to '' @ format_1f t @
     ''. Please adjust the numbers and try again.''"

text \<open>
  The rows that are written: label filled and stripped, the three numbers filled with
  0, and the two codes of the call in the code columns whatever the frame held there.
\<close>

definition to_record :: "string \<Rightarrow> string \<Rightarrow> row \<Rightarrow> row" where
  "to_record ic cc r =
     \<lparr>instructor_code = Some ic, course_code = Some cc,
      assessment_type = Some (strip (fillna_str (assessment_type r))),
      percent_of_class_assessment = Some (fillna0 (percent_of_class_assessment r)),
      ai_misuse_susceptibility = Some (fillna0 (ai_misuse_susceptibility r)),
      modification_level = Some (fillna0 (modification_level r))\<rparr>"

text \<open>
  \<^verbatim>\<open>save_assessments_for_course\<close>.  The result is the exception raised, or \<open>Inr ()\<close>,
  together with the store after the call.  In the order of the source: the labels and
  the percentages of a copy of the frame are filled (\<open>total_percent\<close> fills the
  percentages it adds up); the sum is compared with 100 and the error raised, before
  any call to the store; then the two other columns are filled, the two code columns
  are set, the six columns are turned into records (\<open>to_record\<close> does the filling and
  setting row by row), the rows of the instructor and course are deleted and the
  records inserted.
\<close>

definition save_assessments_for_course ::
    "string \<Rightarrow> string \<Rightarrow> row list \<Rightarrow> db \<Rightarrow> (error + unit) \<times> db" where
  "save_assessments_for_course ic cc df d =
     (if \<bar>total_percent df - 100\<bar> > 1 / 2
      then (Inl (ValueError (percent_sum_message (total_percent df))), d)
      else (Inr (), insert_assessments (map (to_record ic cc) df) (delete_assessments ic cc d)))"

subsection \<open>Reading the store and the frames\<close>

text \<open>The rows of a frame or of a query result under one assessment type.\<close>

definition rows_of_type :: "string \<Rightarrow> row list \<Rightarrow> row list" where
  "rows_of_type t df = filter (\<lambda>r. assessment_type r = Some t) df"


text \<open>The rows handed to the \<^verbatim>\<open>insert\<close> calls among a sequence of calls.\<close>

fun inserted_rows :: "store_call list \<Rightarrow> row list" where
  "inserted_rows [] = []"
| "inserted_rows (Insert_assessments rows # cs) = rows @ inserted_rows cs"
| "inserted_rows (c # cs) = inserted_rows cs"

subsection \<open>Example data\<close>

definition stored_row :: "string \<Rightarrow> string \<Rightarrow> string \<Rightarrow> cell \<Rightarrow> cell \<Rightarrow> cell \<Rightarrow> row" where
  "stored_row ic cc t p a m =
     \<lparr>instructor_code = Some ic, course_code = Some cc, assessment_type = Some t,
      percent_of_class_assessment = p, ai_misuse_susceptibility = a,
      modification_level = m\<rparr>"

text \<open>
  Two rows of the course ACCT 2001 of instructor k7, with 60 and 40 percent; the same
  with a third row under a label that is not an assessment type; and two different rows
  under one assessment type.
\<close>

definition ex_two :: "row list" where
  "ex_two =
     [stored_row ''k7'' ''ACCT 2001'' ''In-person exam/quiz, closed resources, no AI''
        (Some 60) (Some 10) (Some 20),
      stored_row ''k7'' ''ACCT 2001'' ''Online timed exam/quiz, closed resources, no AI''
        (Some 40) None (Some 5)]"

definition ex_stored :: "row list" where
  "ex_stored = ex_two @ [stored_row ''k7'' ''ACCT 2001'' ''Essay'' (Some 0) (Some 0) (Some 0)]"


definition ex_course :: course where
  "ex_course =
     \<lparr>crs_id = ''c-1'', crs_instructor_code = ''k7'', crs_course_code = ''ACCT 2001'',
      crs_course_title = ''Accounting'', crs_term = ''Fall 2025'',
      crs_level = ''Undergraduate'', crs_modality = ''In person'',
      crs_approx_students = 40\<rparr>"

definition ex_db :: db where
  "ex_db =
     \<lparr>assessments =
        ex_stored @
        [stored_row ''k7'' ''MATH 1'' ''In-person participation/presentations, no AI''
           (Some 100) (Some 0) (Some 0)],
      courses = [ex_course],
      writes = []\<rparr>"

text \<open>
  Edited frames: one that adds up to 100 with values far outside 0 to 100, a padded and
  a missing label, and codes of another course in its code columns; the two stored rows
  after 60 has been changed to 70; and a single row with a given percentage.
\<close>

definition ex_frame :: "row list" where
  "ex_frame =
     [\<lparr>instructor_code = Some ''zz'', course_code = Some ''OTHER 9'',
       assessment_type = Some ''  In-person exam/quiz, closed resources, no AI '',
       percent_of_class_assessment = Some 150,
       ai_misuse_susceptibility = Some 250,
       modification_level = None\<rparr>,
      \<lparr>instructor_code = None, course_code = None,
       assessment_type = None,
       percent_of_class_assessment = Some (- 50),
       ai_misuse_susceptibility = None,
       modification_level = Some (- 7)\<rparr>,
      \<lparr>instructor_code = None, course_code = None,
       assessment_type = Some ''Essay'',
       percent_of_class_assessment = None,
       ai_misuse_susceptibility = Some 3,
       modification_level = Some 4\<rparr>]"




section \<open>Properties\<close>

subsection \<open>Auxiliary facts\<close>

lemma distinct_types: "distinct ASSESSMENT_TYPES"
  by (simp add: ASSESSMENT_TYPES_def)







lemma assessments_after_replace:
  "assessments (insert_assessments rows (delete_assessments ic cc d)) =
   filter (\<lambda>r. \<not> eq_pair ic cc r) (assessments d) @ rows"
  by (simp add: insert_assessments_def delete_assessments_def)

lemma writes_after_replace:
  "writes (insert_assessments rows (delete_assessments ic cc d)) =
   writes d @ [Delete_assessments ic cc, Insert_assessments rows]"
  by (simp add: insert_assessments_def delete_assessments_def)





lemma merge_type_label_only:
  "x \<in> set (merge_type S t) \<Longrightarrow> assessment_type x = Some t"
  by (auto simp: merge_type_def blank_row_def merged_row_def split: list.splits)

lemma filter_merge_type_other:
  "t \<noteq> u \<Longrightarrow> filter (\<lambda>x. assessment_type x = Some t) (merge_type S u) = []"
  by (auto simp: filter_empty_conv dest: merge_type_label_only)

lemma filter_merge_type_same:
  "filter (\<lambda>x. assessment_type x = Some t) (merge_type S t) = merge_type S t"
  by (auto simp: filter_id_conv dest: merge_type_label_only)

lemma filter_merge_left:
  "distinct types \<Longrightarrow> t \<in> set types \<Longrightarrow>
   filter (\<lambda>x. assessment_type x = Some t) (merge_left types S) = merge_type S t"
proof (induction types)
  case Nil
  then show ?case by simp
next
  case (Cons u us)
  show ?case
  proof (cases "t = u")
    case True
    with Cons.prems have "t \<notin> set us" by simp
    then have "filter (\<lambda>x. assessment_type x = Some t) (merge_left us S) = []"
      by (induction us) (simp_all add: merge_left_def filter_merge_type_other)
    with True show ?thesis
      by (simp add: merge_left_def filter_merge_type_same)
  next
    case False
    with Cons show ?thesis
      by (simp add: merge_left_def filter_merge_type_other)
  qed
qed




subsection \<open>Loading\<close>




text \<open>
  C3.  Without stored rows \<open>reconcile\<close> returns the default frame: 100 in the
  percentage of the first assessment type and 0 in the ten others, 0 in both other
  columns of every row; the percentages add up to exactly 100, and saving this frame
  passes the check of the sum.
\<close>

theorem reconcile_empty_default:
  "map assessment_type (reconcile []) = map Some ASSESSMENT_TYPES \<and>
   map percent_of_class_assessment (reconcile []) = Some 100 # replicate 10 (Some 0) \<and>
   map ai_misuse_susceptibility (reconcile []) = replicate 11 (Some 0) \<and>
   map modification_level (reconcile []) = replicate 11 (Some 0) \<and>
   total_percent (reconcile []) = 100 \<and>
   fst (save_assessments_for_course ic cc (reconcile []) d) = Inr ()"
proof -
  have 1: "map assessment_type (reconcile []) = map Some ASSESSMENT_TYPES" by code_simp
  have 2: "map percent_of_class_assessment (reconcile []) = Some 100 # replicate 10 (Some 0)"
    by code_simp
  have 3: "map ai_misuse_susceptibility (reconcile []) = replicate 11 (Some 0)" by code_simp
  have 4: "map modification_level (reconcile []) = replicate 11 (Some 0)" by code_simp
  have 5: "total_percent (reconcile []) = 100" by code_simp
  have 6: "fst (save_assessments_for_course ic cc (reconcile []) d) = Inr ()"
    by (simp add: save_assessments_for_course_def 5)
  from 1 2 3 4 5 6 show ?thesis by blast
qed

text \<open>
  C4, as stated: an assessment type without a stored row gets 0.0 in its three numeric
  columns.  With the two stored rows of \<open>ex_two\<close>, both under assessment types, the
  second assessment type has no stored row, and its three numbers come back missing,
  not 0.0: the left merge fills nothing in.
\<close>

theorem reconcile_unmatched_not_zero:
  "reconcile ex_two ! 1 =
     \<lparr>instructor_code = None, course_code = None,
      assessment_type = Some ''In-person exam/quiz, limited resources (notes/book), no AI'',
      percent_of_class_assessment = None,
      ai_misuse_susceptibility = None,
      modification_level = None\<rparr> \<and>
   percent_of_class_assessment (reconcile ex_two ! 1) \<noteq> Some 0 \<and>
   ai_misuse_susceptibility (reconcile ex_two ! 1) \<noteq> Some 0 \<and>
   modification_level (reconcile ex_two ! 1) \<noteq> Some 0"
  by code_simp

text \<open>
  C4, amended: for every non-empty list of stored rows and every assessment type, the
  rows of the loaded frame under that type carry the three numbers of the stored rows
  under that type, unchanged and in the stored order; a type without a stored row has
  exactly one row in the frame, whose three numbers are missing (the display of the sum
  and the save later read a missing number as 0).
\<close>

theorem reconcile_merge_fidelity:
  assumes "S \<noteq> []" and "t \<in> set ASSESSMENT_TYPES"
  shows
    "(rows_of_type t S \<noteq> [] \<longrightarrow>
        map percent_of_class_assessment (rows_of_type t (reconcile S)) =
          map percent_of_class_assessment (rows_of_type t S) \<and>
        map ai_misuse_susceptibility (rows_of_type t (reconcile S)) =
          map ai_misuse_susceptibility (rows_of_type t S) \<and>
        map modification_level (rows_of_type t (reconcile S)) =
          map modification_level (rows_of_type t S)) \<and>
     (rows_of_type t S = [] \<longrightarrow>
        rows_of_type t (reconcile S) =
          [\<lparr>instructor_code = None, course_code = None, assessment_type = Some t,
            percent_of_class_assessment = None, ai_misuse_susceptibility = None,
            modification_level = None\<rparr>])"
proof -
  have "rows_of_type t (reconcile S) = merge_type S t"
    using assms by (simp add: rows_of_type_def reconcile_def filter_merge_left distinct_types)
  then show ?thesis
    by (cases "filter (\<lambda>r. assessment_type r = Some t) S")
       (simp_all add: rows_of_type_def merge_type_def blank_row_def merged_row_def comp_def)
qed

theorem reconcile_merge_fidelity_witness:
  "ex_two \<noteq> [] \<and>
   ''In-person exam/quiz, closed resources, no AI'' \<in> set ASSESSMENT_TYPES \<and>
   ''In-person exam/quiz, open resources, AI allowed'' \<in> set ASSESSMENT_TYPES \<and>
   map percent_of_class_assessment
     (rows_of_type ''In-person exam/quiz, closed resources, no AI'' (reconcile ex_two)) =
     [Some 60] \<and>
   rows_of_type ''In-person exam/quiz, open resources, AI allowed'' (reconcile ex_two) =
     [\<lparr>instructor_code = None, course_code = None,
       assessment_type = Some ''In-person exam/quiz, open resources, AI allowed'',
       percent_of_class_assessment = None, ai_misuse_susceptibility = None,
       modification_level = None\<rparr>]"
proof -
  have ne: "ex_two \<noteq> []" by code_simp
  have t0: "''In-person exam/quiz, closed resources, no AI'' \<in> set ASSESSMENT_TYPES"
    by code_simp
  have t2: "''In-person exam/quiz, open resources, AI allowed'' \<in> set ASSESSMENT_TYPES"
    by code_simp
  have m0: "rows_of_type ''In-person exam/quiz, closed resources, no AI'' ex_two \<noteq> []"
    by code_simp
  have p0: "map percent_of_class_assessment
      (rows_of_type ''In-person exam/quiz, closed resources, no AI'' ex_two) = [Some 60]"
    by code_simp
  have m2: "rows_of_type ''In-person exam/quiz, open resources, AI allowed'' ex_two = []"
    by code_simp
  from reconcile_merge_fidelity [OF ne t0] m0 p0
  have a: "map percent_of_class_assessment
     (rows_of_type ''In-person exam/quiz, closed resources, no AI'' (reconcile ex_two)) =
     [Some 60]"
    by metis
  from reconcile_merge_fidelity [OF ne t2] m2
  have b: "rows_of_type ''In-person exam/quiz, open resources, AI allowed'' (reconcile ex_two) =
     [\<lparr>instructor_code = None, course_code = None,
       assessment_type = Some ''In-person exam/quiz, open resources, AI allowed'',
       percent_of_class_assessment = None, ai_misuse_susceptibility = None,
       modification_level = None\<rparr>]"
    by blast
  from ne t0 t2 a b show ?thesis by blast
qed

subsection \<open>The check of the sum\<close>






subsection \<open>Replacing the stored rows\<close>








text \<open>
  C10.  Every row that a successful save inserts carries the instructor code and the
  course code of the call, whatever the code columns of the frame held; the table
  afterwards is the rows of the other courses followed by these rows, so no row is
  stored under another instructor or course.
\<close>

theorem save_stamps_codes:
  "fst (save_assessments_for_course ic cc df d) = Inr () \<Longrightarrow>
   map instructor_code (inserted_rows (drop (length (writes d))
       (writes (snd (save_assessments_for_course ic cc df d))))) =
     replicate (length df) (Some ic) \<and>
   map course_code (inserted_rows (drop (length (writes d))
       (writes (snd (save_assessments_for_course ic cc df d))))) =
     replicate (length df) (Some cc) \<and>
   assessments (snd (save_assessments_for_course ic cc df d)) =
     filter (\<lambda>r. \<not> eq_pair ic cc r) (assessments d) @
     inserted_rows (drop (length (writes d))
       (writes (snd (save_assessments_for_course ic cc df d))))"
proof -
  assume "fst (save_assessments_for_course ic cc df d) = Inr ()"
  then have ok: "\<not> \<bar>total_percent df - 100\<bar> > 1 / 2"
    by (auto simp: save_assessments_for_course_def split: if_splits)
  have ins: "inserted_rows (drop (length (writes d))
       (writes (snd (save_assessments_for_course ic cc df d)))) = map (to_record ic cc) df"
    using ok by (simp add: save_assessments_for_course_def writes_after_replace)
  have 1: "map instructor_code (map (to_record ic cc) df) = replicate (length df) (Some ic)"
    by (induction df) (simp_all add: to_record_def)
  have 2: "map course_code (map (to_record ic cc) df) = replicate (length df) (Some cc)"
    by (induction df) (simp_all add: to_record_def)
  have 3: "assessments (snd (save_assessments_for_course ic cc df d)) =
     filter (\<lambda>r. \<not> eq_pair ic cc r) (assessments d) @ map (to_record ic cc) df"
    using ok by (simp add: save_assessments_for_course_def assessments_after_replace)
  show ?thesis unfolding ins using 1 2 3 by blast
qed

theorem save_stamps_codes_witness:
  "fst (save_assessments_for_course ''k7'' ''ACCT 2001'' ex_frame ex_db) = Inr () \<and>
   map instructor_code ex_frame = [Some ''zz'', None, None] \<and>
   map instructor_code (inserted_rows (drop (length (writes ex_db))
       (writes (snd (save_assessments_for_course ''k7'' ''ACCT 2001'' ex_frame ex_db))))) =
     [Some ''k7'', Some ''k7'', Some ''k7''] \<and>
   map course_code (inserted_rows (drop (length (writes ex_db))
       (writes (snd (save_assessments_for_course ''k7'' ''ACCT 2001'' ex_frame ex_db))))) =
     [Some ''ACCT 2001'', Some ''ACCT 2001'', Some ''ACCT 2001'']"
proof -
  have h: "fst (save_assessments_for_course ''k7'' ''ACCT 2001'' ex_frame ex_db) = Inr ()"
    by code_simp
  have f: "map instructor_code ex_frame = [Some ''zz'', None, None]" by code_simp
  have l: "length ex_frame = 3" by code_simp
  have r: "replicate 3 x = [x, x, x]" for x :: "string option"
    by (simp add: numeral_3_eq_3)
  from save_stamps_codes [OF h] h f show ?thesis by (simp only: l r)
qed

subsection \<open>Deleting a course\<close>



end
